theory Spec2Isabelle
  imports Main "HOL-Library.Word"
begin

section \<open>Values\<close>

text \<open>
  A Python \<open>str\<close> is a sequence of code points and \<open>len\<close> counts them, so a \<open>str\<close> is a
  list of code points (natural numbers). The literals of the program are ASCII and are
  written as HOL strings, converted by \<open>str\<close>. A \<open>bytes\<close> object is a list of octets.
\<close>

type_synonym pystr = "nat list"

type_synonym bytes = "8 word list"

definition str :: "string \<Rightarrow> pystr" where
  "str s = map of_char s"

text \<open>What \<open>request.json\<close> can hold: the values of a parsed JSON document.\<close>

datatype json =
    JNull
  | JBool bool
  | JNum int
  | JStr pystr
  | JArr "json list"
  | JObj "(pystr \<times> json) list"

text \<open>
  An exception is its class and the text \<open>str(e)\<close>. All classes here are subclasses of
  \<open>Exception\<close>, which is what every \<open>except Exception\<close> clause of \<open>app.py\<close> catches.
  \<open>ProviderError\<close> stands for whatever a call into \<open>requests\<close>, \<open>elevenlabs\<close>,
  \<open>google.generativeai\<close> or \<open>assemblyai\<close> raises.
\<close>

datatype exn_class =
    TypeError
  | AttributeError
  | KeyError
  | IndexError
  | TimeoutError
  | UnicodeEncodeError
  | ProviderError

datatype exn = Raised exn_class pystr

fun exn_str :: "exn \<Rightarrow> pystr" where
  "exn_str (Raised c m) = m"

subsection \<open>Texts of the interpreter\<close>

definition quote :: string where
  "quote = [CHR 0x27]"

definition dquote :: string where
  "dquote = [CHR 0x22]"

definition backslash :: string where
  "backslash = [CHR 0x5C]"

definition quoted :: "string \<Rightarrow> string" where
  "quoted s = quote @ s @ quote"

text \<open>The name of the type of a value, as error messages show it.\<close>

fun type_name :: "json \<Rightarrow> string" where
  "type_name JNull = ''NoneType''"
| "type_name (JBool b) = ''bool''"
| "type_name (JNum n) = ''int''"
| "type_name (JStr s) = ''str''"
| "type_name (JArr xs) = ''list''"
| "type_name (JObj kvs) = ''dict''"

definition hex_digit :: "nat \<Rightarrow> char" where
  "hex_digit n = ''0123456789abcdef'' ! (n mod 16)"

text \<open>A number in hexadecimal with a given number of digits, and in decimal.\<close>

fun hex :: "nat \<Rightarrow> nat \<Rightarrow> string" where
  "hex 0 n = []"
| "hex (Suc w) n = hex w (n div 16) @ [hex_digit n]"

fun decimal :: "nat \<Rightarrow> string" where
  "decimal n = (if n < 10 then [hex_digit n] else decimal (n div 10) @ [hex_digit (n mod 10)])"

declare decimal.simps [simp del]

section \<open>Standard output\<close>

text \<open>
  Every \<open>except\<close> clause of the program prints the exception it caught. \<open>print\<close> writes
  to \<open>sys.stdout\<close>, which is taken to be open; it encodes the text strictly, and a
  character that the encoding of the stream does not have makes \<open>print\<close> itself raise
  \<open>UnicodeEncodeError\<close>. The encodings: ASCII, Latin-1, UTF-8 (which has everything but
  lone surrogates), and a character map such as cp1252, which has ASCII and the further
  code points it is given.
\<close>

datatype codec = Ascii | Latin1 | Utf8 | Charmap "nat \<Rightarrow> bool"

fun encodes :: "codec \<Rightarrow> nat \<Rightarrow> bool" where
  "encodes Ascii c = (c < 128)"
| "encodes Latin1 c = (c < 256)"
| "encodes Utf8 c = (c < 55296 \<or> 57343 < c)"
| "encodes (Charmap known) c = (c < 128 \<or> known c)"

fun codec_name :: "codec \<Rightarrow> string" where
  "codec_name Ascii = ''ascii''"
| "codec_name Latin1 = ''latin-1''"
| "codec_name Utf8 = ''utf-8''"
| "codec_name (Charmap known) = ''charmap''"

fun codec_reason :: "codec \<Rightarrow> string" where
  "codec_reason Ascii = ''ordinal not in range(128)''"
| "codec_reason Latin1 = ''ordinal not in range(256)''"
| "codec_reason Utf8 = ''surrogates not allowed''"
| "codec_reason (Charmap known) = ''character maps to <undefined>''"

text \<open>How the message of the error shows a single character.\<close>

definition escape :: "nat \<Rightarrow> string" where
  "escape c =
     (if c < 256 then backslash @ ''x'' @ hex 2 c
      else if c < 65536 then backslash @ ''u'' @ hex 4 c
      else backslash @ ''U'' @ hex 8 c)"

text \<open>
  \<open>str(e)\<close> of the \<open>UnicodeEncodeError\<close> for a text: it names the first run of
  characters that the encoding does not have.
\<close>

definition encode_error_text :: "codec \<Rightarrow> pystr \<Rightarrow> pystr" where
  "encode_error_text k s =
     (let start = length (takeWhile (encodes k) s);
          run = takeWhile (\<lambda>c. \<not> encodes k c) (drop start s)
      in str (quoted (codec_name k) @ '' codec can't encode '' @
              (if length run = 1
               then ''character '' @ quoted (escape (hd run)) @ '' in position '' @ decimal start
               else ''characters in position '' @ decimal start @ ''-'' @
                    decimal (start + length run - 1)) @
              '': '' @ codec_reason k))"

definition py_print :: "codec \<Rightarrow> pystr \<Rightarrow> exn + unit" where
  "py_print k s =
     (if list_all (encodes k) s then Inr ()
      else Inl (Raised UnicodeEncodeError (encode_error_text k s)))"

section \<open>The outside world\<close>

text \<open>The answer of \<open>requests.get\<close>: the fields of the response that the program reads.\<close>

record http_reply =
  status_code :: nat
  content :: bytes

text \<open>
  What \<open>client.generate\<close> hands back: a bytes object, or an iterator that yields chunks
  and then either ends or raises while it is drained.
\<close>

datatype generated = Whole bytes | Chunks "bytes list" "exn option"

text \<open>
  The behaviour of the external services during one request, how many seconds each call
  blocks its caller, and the encoding of \<open>sys.stdout\<close>. Every external call is taken to
  end, with a value or with an exception. \<open>transcribe\<close> gives \<open>Inl m\<close> when the
  AssemblyAI call raises an exception \<open>e\<close> with \<open>str(e) = m\<close>, and \<open>Inr t\<close> when it
  returns a transcript whose \<open>text\<close> attribute is \<open>t\<close> (possibly \<open>None\<close>).
\<close>

record env =
  requests_get :: "pystr \<Rightarrow> exn + http_reply"
  requests_secs :: "pystr \<Rightarrow> nat"
  client_generate :: "pystr \<Rightarrow> exn + generated"
  client_secs :: "pystr \<Rightarrow> nat"
  send_message :: "json \<Rightarrow> exn + pystr"
  send_secs :: "json \<Rightarrow> nat"
  transcribe :: "bytes \<Rightarrow> pystr + pystr option"
  stdout :: codec

text \<open>The calls that leave the process, in the order they are made.\<close>

datatype call =
    RequestsGet pystr
  | ClientGenerate pystr
  | SendMessage json
  | Transcribe bytes

text \<open>
  The state of the process: the entries of the \<open>lru_cache\<close> around
  \<open>cached_text_to_speech\<close> (most recently used first), the external calls made so far,
  the seconds the current thread has spent, and the file \<open>temp_recording.wav\<close>.
\<close>

record state =
  cache :: "(pystr \<times> bytes) list"
  log :: "call list"
  clock :: nat
  temp_file :: "bytes option"

definition init :: state where
  "init = \<lparr>cache = [], log = [], clock = 0, temp_file = None\<rparr>"

section \<open>Text to speech\<close>

subsection \<open>The free provider\<close>

text \<open>
  \<open>generate_free_tts\<close>: the inner \<open>case\<close> is the \<open>try\<close> block, the outer one the
  \<open>except\<close> clause with its \<open>print\<close>.
\<close>

definition generate_free_tts :: "env \<Rightarrow> pystr \<Rightarrow> state \<Rightarrow> (exn + bytes option) \<times> state" where
  "generate_free_tts env text s =
     (let s' = s\<lparr>log := log s @ [RequestsGet text],
                 clock := clock s + requests_secs env text\<rparr>
      in case (case requests_get env text of
                 Inr response \<Rightarrow>
                   if status_code response = 200 then Inr (Some (content response))
                   else (case py_print (stdout env)
                                (str (''Free TTS API error: '' @ decimal (status_code response))) of
                           Inr u \<Rightarrow> Inr None
                         | Inl e \<Rightarrow> Inl e)
               | Inl e \<Rightarrow> Inl e) of
           Inr r \<Rightarrow> (Inr r, s')
         | Inl e \<Rightarrow>
             (case py_print (stdout env) (str ''Error with free TTS: '' @ exn_str e) of
                Inr u \<Rightarrow> (Inr None, s')
              | Inl e' \<Rightarrow> (Inl e', s')))"

subsection \<open>The paid provider behind \<open>lru_cache(maxsize=128)\<close>\<close>

definition maxsize :: nat where
  "maxsize = 128"

text \<open>\<open>b''.join(audio_data)\<close> when the value is an iterator, the value itself when it is bytes.\<close>

definition join_bytes :: "generated \<Rightarrow> exn + bytes" where
  "join_bytes g =
     (case g of
        Whole b \<Rightarrow> Inr b
      | Chunks cs None \<Rightarrow> Inr (concat cs)
      | Chunks cs (Some e) \<Rightarrow> Inl e)"

text \<open>The function under the decorator (\<open>cached_text_to_speech.__wrapped__\<close>).\<close>

definition cached_text_to_speech_wrapped ::
  "env \<Rightarrow> pystr \<Rightarrow> state \<Rightarrow> (exn + bytes) \<times> state" where
  "cached_text_to_speech_wrapped env text s =
     (let s' = s\<lparr>log := log s @ [ClientGenerate text],
                 clock := clock s + client_secs env text\<rparr>
      in case client_generate env text of
           Inl e \<Rightarrow> (Inl e, s')
         | Inr audio_data \<Rightarrow> (join_bytes audio_data, s'))"

text \<open>
  \<open>functools.lru_cache\<close>: a hit moves the entry to the most recent position; a miss calls
  the function, and a result (never an exception) is stored, in place of the least
  recently used entry when the cache is full.
\<close>

definition lru_hit :: "pystr \<Rightarrow> bytes \<Rightarrow> (pystr \<times> bytes) list \<Rightarrow> (pystr \<times> bytes) list" where
  "lru_hit key v c = (key, v) # filter (\<lambda>e. fst e \<noteq> key) c"

definition lru_store :: "pystr \<Rightarrow> bytes \<Rightarrow> (pystr \<times> bytes) list \<Rightarrow> (pystr \<times> bytes) list" where
  "lru_store key v c =
     (case map_of c key of
        Some u \<Rightarrow> c
      | None \<Rightarrow> if maxsize \<le> length c then (key, v) # butlast c else (key, v) # c)"

definition cached_text_to_speech :: "env \<Rightarrow> pystr \<Rightarrow> state \<Rightarrow> (exn + bytes) \<times> state" where
  "cached_text_to_speech env text s =
     (case map_of (cache s) text of
        Some v \<Rightarrow> (Inr v, s\<lparr>cache := lru_hit text v (cache s)\<rparr>)
      | None \<Rightarrow>
          (case cached_text_to_speech_wrapped env text s of
             (Inl e, s') \<Rightarrow> (Inl e, s')
           | (Inr v, s') \<Rightarrow> (Inr v, s'\<lparr>cache := lru_store text v (cache s')\<rparr>)))"

subsection \<open>The fallback chain of the chat reply\<close>

text \<open>Python's truth value of \<open>None\<close> or a bytes object.\<close>

definition truthy :: "bytes option \<Rightarrow> bool" where
  "truthy a = (case a of None \<Rightarrow> False | Some b \<Rightarrow> b \<noteq> [])"

text \<open>
  \<open>generate_audio\<close>, the function nested in \<open>chat_endpoint\<close>. Each \<open>try\<close> block either
  returns from the function or falls through to what follows it, and an \<open>except\<close> clause
  whose \<open>print\<close> raises lets that exception leave the function. \<open>audio_elevenlabs\<close> is
  the second block with the final \<open>return None\<close>.
\<close>

definition audio_elevenlabs :: "env \<Rightarrow> pystr \<Rightarrow> state \<Rightarrow> (exn + bytes option) \<times> state" where
  "audio_elevenlabs env audio_text s =
     (case cached_text_to_speech env audio_text s of
        (Inr audio_data, s') \<Rightarrow>
          if truthy (Some audio_data) then (Inr (Some audio_data), s') else (Inr None, s')
      | (Inl el_error, s') \<Rightarrow>
          (case py_print (stdout env) (str ''ElevenLabs error in chat: '' @ exn_str el_error) of
             Inr u \<Rightarrow> (Inr None, s')
           | Inl e' \<Rightarrow> (Inl e', s')))"

definition generate_audio :: "env \<Rightarrow> pystr \<Rightarrow> state \<Rightarrow> (exn + bytes option) \<times> state" where
  "generate_audio env audio_text s =
     (case generate_free_tts env audio_text s of
        (Inr audio_data, s1) \<Rightarrow>
          if truthy audio_data then (Inr audio_data, s1)
          else audio_elevenlabs env audio_text s1
      | (Inl free_error, s1) \<Rightarrow>
          (case py_print (stdout env) (str ''Free TTS error in chat: '' @ exn_str free_error) of
             Inr u \<Rightarrow> audio_elevenlabs env audio_text s1
           | Inl e' \<Rightarrow> (Inl e', s1)))"

subsection \<open>Base64\<close>

text \<open>\<open>base64.b64encode\<close>: three octets become four characters, the tail is padded.\<close>

definition b64_alphabet :: string where
  "b64_alphabet = ''ABCDEFGHIJKLMNOPQRSTUVWXYZabcdefghijklmnopqrstuvwxyz0123456789+/''"

definition b64_char :: "nat \<Rightarrow> char" where
  "b64_char i = b64_alphabet ! (i mod 64)"

fun b64encode :: "bytes \<Rightarrow> string" where
  "b64encode [] = []"
| "b64encode [a] =
     (let n = unat a * 65536
      in [b64_char (n div 262144), b64_char (n div 4096), CHR ''='', CHR ''=''])"
| "b64encode [a, b] =
     (let n = unat a * 65536 + unat b * 256
      in [b64_char (n div 262144), b64_char (n div 4096), b64_char (n div 64), CHR ''=''])"
| "b64encode (a # b # c # rest) =
     (let n = unat a * 65536 + unat b * 256 + unat c
      in [b64_char (n div 262144), b64_char (n div 4096), b64_char (n div 64), b64_char n]
         @ b64encode rest)"

text \<open>\<open>base64.b64encode(audio_data).decode('utf-8')\<close>\<close>

definition audio_b64 :: "bytes \<Rightarrow> pystr" where
  "audio_b64 audio_data = str (b64encode audio_data)"

section \<open>The greeting\<close>

text \<open>A Python dict written with literal keys, as passed to \<open>jsonify\<close> or returned.\<close>

type_synonym dict = "(string \<times> json) list"

text \<open>
  \<open>generate_introduction\<close>. The profile \<open>user_data\<close> comes from a file outside the
  program, so the outcome of building the introduction sentence from it is taken as given:
  \<open>Inr\<close> the sentence, or \<open>Inl\<close> the error of a missing key or index. \<open>intro_try\<close> is
  the outer \<open>try\<close> block, \<open>intro_elevenlabs\<close> its second inner block with the return
  that follows.
\<close>

definition intro_elevenlabs :: "env \<Rightarrow> pystr \<Rightarrow> state \<Rightarrow> (exn + dict) \<times> state" where
  "intro_elevenlabs env introduction s =
     (case cached_text_to_speech env introduction s of
        (Inr audio_data, s') \<Rightarrow>
          if audio_data \<noteq> []
          then (Inr [(''text'', JStr introduction), (''audio'', JStr (audio_b64 audio_data))], s')
          else (Inr [(''text'', JStr introduction), (''audio'', JNull)], s')
      | (Inl el_error, s') \<Rightarrow>
          (case py_print (stdout env) (str ''ElevenLabs error: '' @ exn_str el_error) of
             Inr u \<Rightarrow> (Inr [(''text'', JStr introduction), (''audio'', JNull)], s')
           | Inl e' \<Rightarrow> (Inl e', s')))"

definition intro_try :: "env \<Rightarrow> exn + pystr \<Rightarrow> state \<Rightarrow> (exn + dict) \<times> state" where
  "intro_try env built s =
     (case built of
        Inl e \<Rightarrow> (Inl e, s)
      | Inr introduction \<Rightarrow>
          (case generate_free_tts env introduction s of
             (Inr (Some audio_data), s1) \<Rightarrow>
               if audio_data \<noteq> []
               then (Inr [(''text'', JStr introduction), (''audio'', JStr (audio_b64 audio_data))], s1)
               else intro_elevenlabs env introduction s1
           | (Inr None, s1) \<Rightarrow> intro_elevenlabs env introduction s1
           | (Inl free_error, s1) \<Rightarrow>
               (case py_print (stdout env) (str ''Free TTS error: '' @ exn_str free_error) of
                  Inr u \<Rightarrow> intro_elevenlabs env introduction s1
                | Inl e' \<Rightarrow> (Inl e', s1))))"

definition generate_introduction :: "env \<Rightarrow> exn + pystr \<Rightarrow> state \<Rightarrow> (exn + dict) \<times> state" where
  "generate_introduction env built s =
     (case intro_try env built s of
        (Inr d, s') \<Rightarrow> (Inr d, s')
      | (Inl e, s') \<Rightarrow>
          (case py_print (stdout env) (str ''Error generating introduction: '' @ exn_str e) of
             Inr u \<Rightarrow>
               (Inr [(''text'', JStr (str ''Hi! I'm Boobalamurgan AI assistant. I'm here to chat about tech, AI, and software development.'')),
                     (''audio'', JNull)], s')
           | Inl e' \<Rightarrow> (Inl e', s')))"

section \<open>The chat endpoint\<close>

subsection \<open>Futures\<close>

text \<open>
  \<open>concurrent.futures\<close>, seen from the submitting thread. A submitted call runs on a
  worker; the future knows when the worker is done and with what. Leaving the
  \<open>with ThreadPoolExecutor()\<close> block calls \<open>shutdown(wait=True)\<close>, which blocks until the
  workers are done. \<open>result(timeout)\<close> blocks until the future is done or the timeout has
  passed, whichever is first, and raises \<open>TimeoutError\<close> in the second case.
\<close>

record 'a future =
  finish_at :: nat
  outcome :: "exn + 'a"

definition submit :: "(state \<Rightarrow> (exn + 'a) \<times> state) \<Rightarrow> state \<Rightarrow> 'a future \<times> state" where
  "submit fn s =
     (case fn s of (r, s') \<Rightarrow> (\<lparr>finish_at = clock s', outcome = r\<rparr>, s'\<lparr>clock := clock s\<rparr>))"

definition shutdown_wait :: "'a future \<Rightarrow> state \<Rightarrow> state" where
  "shutdown_wait fut s = s\<lparr>clock := max (clock s) (finish_at fut)\<rparr>"

definition future_result :: "'a future \<Rightarrow> nat \<Rightarrow> state \<Rightarrow> (exn + 'a) \<times> state" where
  "future_result fut timeout s =
     (if finish_at fut \<le> clock s + timeout
      then (outcome fut, s\<lparr>clock := max (clock s) (finish_at fut)\<rparr>)
      else (Inl (Raised TimeoutError []), s\<lparr>clock := clock s + timeout\<rparr>))"

subsection \<open>The handler\<close>

datatype response =
    JsonResponse nat dict
  | AudioResponse nat string bytes

fun http_status :: "response \<Rightarrow> nat" where
  "http_status (JsonResponse c d) = c"
| "http_status (AudioResponse c m b) = c"

text \<open>\<open>request.json.get(key)\<close>: only a JSON object has \<open>get\<close>; of duplicate keys the last counts.\<close>

definition json_get :: "json \<Rightarrow> pystr \<Rightarrow> exn + json" where
  "json_get payload key =
     (case payload of
        JObj kvs \<Rightarrow> Inr (case map_of (rev kvs) key of Some v \<Rightarrow> v | None \<Rightarrow> JNull)
      | _ \<Rightarrow> Inl (Raised AttributeError
                 (str (quoted (type_name payload) @ '' object has no attribute '' @ quoted ''get''))))"

text \<open>\<open>len(user_message)\<close>\<close>

definition py_len :: "json \<Rightarrow> exn + nat" where
  "py_len v =
     (case v of
        JStr s \<Rightarrow> Inr (length s)
      | JArr xs \<Rightarrow> Inr (length xs)
      | JObj kvs \<Rightarrow> Inr (length (remdups (map fst kvs)))
      | _ \<Rightarrow> Inl (Raised TypeError
                 (str (''object of type '' @ quoted (type_name v) @ '' has no len()''))))"

text \<open>
  \<open>user_message[:500] + "..."\<close>: a list cannot be joined to a \<open>str\<close>, a dict cannot be
  sliced, and the other values cannot be subscripted.
\<close>

definition truncate_message :: "json \<Rightarrow> exn + json" where
  "truncate_message v =
     (case v of
        JStr s \<Rightarrow> Inr (JStr (take 500 s @ str ''...''))
      | JArr xs \<Rightarrow>
          Inl (Raised TypeError
                 (str (''can only concatenate list (not '' @ dquote @ ''str'' @ dquote @ '') to list'')))
      | JObj kvs \<Rightarrow> Inl (Raised TypeError (str (''unhashable type: '' @ quoted ''slice'')))
      | _ \<Rightarrow> Inl (Raised TypeError (str (quoted (type_name v) @ '' object is not subscriptable''))))"

definition api_error_text :: pystr where
  "api_error_text = str ''I'm sorry, I encountered an error processing your request. This might be due to API quota limitations. Please try again with a shorter message.''"

definition chat_payload :: "pystr \<Rightarrow> json \<Rightarrow> string \<Rightarrow> response" where
  "chat_payload response_text audio status =
     JsonResponse 200 [(''response'', JStr response_text), (''audio'', audio), (''status'', JStr (str status))]"

text \<open>
  From \<open>with ThreadPoolExecutor() as executor\<close> to the end of the inner \<open>try\<close>: the
  synthesis is submitted, the block is left, the result is awaited for ten seconds. What
  the \<open>print\<close> of the inner \<open>except\<close> clause raises goes on to the outer one.
\<close>

definition chat_audio :: "env \<Rightarrow> pystr \<Rightarrow> state \<Rightarrow> (exn + response) \<times> state" where
  "chat_audio env response_text s =
     (case submit (generate_audio env response_text) s of
        (fut, s1) \<Rightarrow>
          (case future_result fut 10 (shutdown_wait fut s1) of
             (Inr (Some audio_data), s2) \<Rightarrow>
               if audio_data \<noteq> []
               then (Inr (chat_payload response_text (JStr (audio_b64 audio_data)) ''success''), s2)
               else (Inr (chat_payload response_text JNull ''no_audio''), s2)
           | (Inr None, s2) \<Rightarrow> (Inr (chat_payload response_text JNull ''no_audio''), s2)
           | (Inl e, s2) \<Rightarrow>
               (case py_print (stdout env) (str ''Error in audio generation: '' @ exn_str e) of
                  Inr u \<Rightarrow> (Inr (chat_payload response_text JNull ''audio_error''), s2)
                | Inl e' \<Rightarrow> (Inl e', s2))))"

text \<open>The statements of the outer \<open>try\<close> block of \<open>chat_endpoint\<close>.\<close>

definition chat_try :: "env \<Rightarrow> json \<Rightarrow> state \<Rightarrow> (exn + response) \<times> state" where
  "chat_try env user_message s =
     (case py_len user_message of
        Inl e \<Rightarrow> (Inl e, s)
      | Inr n \<Rightarrow>
          (case (if 500 < n then truncate_message user_message else Inr user_message) of
             Inl e \<Rightarrow> (Inl e, s)
           | Inr forwarded \<Rightarrow>
               (let s1 = s\<lparr>log := log s @ [SendMessage forwarded],
                            clock := clock s + send_secs env forwarded\<rparr>
                in case send_message env forwarded of
                     Inl e \<Rightarrow> (Inl e, s1)
                   | Inr response_text \<Rightarrow> chat_audio env response_text s1)))"

text \<open>
  \<open>chat_endpoint\<close>: the message is read from the payload before the \<open>try\<close>; whatever the
  block raises is printed and becomes the fixed reply with status \<open>api_error\<close>, unless
  the \<open>print\<close> raises.
\<close>

definition chat_endpoint :: "env \<Rightarrow> json \<Rightarrow> state \<Rightarrow> (exn + response) \<times> state" where
  "chat_endpoint env payload s =
     (case json_get payload (str ''message'') of
        Inl e \<Rightarrow> (Inl e, s)
      | Inr user_message \<Rightarrow>
          (case chat_try env user_message s of
             (Inr r, s') \<Rightarrow> (Inr r, s')
           | (Inl e, s') \<Rightarrow>
               (case py_print (stdout env) (str ''Error in chat endpoint: '' @ exn_str e) of
                  Inr u \<Rightarrow> (Inr (chat_payload api_error_text JNull ''api_error''), s')
                | Inl e' \<Rightarrow> (Inl e', s'))))"

section \<open>The audio endpoint\<close>

text \<open>
  \<open>text_to_speech\<close>: \<open>cached_text_to_speech\<close> returns a bytes object, so the second
  \<open>join\<close> of the handler is never taken. The \<open>except\<close> clause prints before it returns.
\<close>

definition text_to_speech :: "env \<Rightarrow> pystr \<Rightarrow> state \<Rightarrow> (exn + response) \<times> state" where
  "text_to_speech env text s =
     (case cached_text_to_speech env text s of
        (Inr audio_data, s') \<Rightarrow> (Inr (AudioResponse 200 ''audio/mpeg'' audio_data), s')
      | (Inl e, s') \<Rightarrow>
          (case py_print (stdout env) (str ''Error generating audio: '' @ exn_str e) of
             Inr u \<Rightarrow>
               (Inr (JsonResponse 500 [(''error'', JStr (str ''Failed to generate audio''))]), s')
           | Inl e' \<Rightarrow> (Inl e', s')))"

section \<open>The transcription endpoint\<close>

text \<open>
  \<open>transcribe_with_assemblyai\<close>, given the configured key \<open>ASSEMBLY_AI_API_KEY\<close> and the
  uploaded files of the request by field name. The temporary file is written and removed
  on a file system that does not fail. \<open>transcribe_try\<close> is the \<open>try\<close> block; when the
  \<open>print\<close> of the \<open>except\<close> clause raises, the file is not removed.
\<close>

definition transcribe_try ::
  "pystr \<Rightarrow> env \<Rightarrow> bytes \<Rightarrow> state \<Rightarrow> (exn + response) \<times> state" where
  "transcribe_try api_key env audio_file s =
     (if api_key = [] \<or> api_key = str ''your-assemblyai-key''
      then
        (case py_print (stdout env) (str ''No valid AssemblyAI API key found'') of
           Inl e \<Rightarrow> (Inl e, s)
         | Inr u \<Rightarrow>
             (Inr (JsonResponse 400
                [(''transcript'', JStr []),
                 (''error'', JStr (str ''AssemblyAI API key is not configured. Please update api_key.json with your key.'')),
                 (''status'', JStr (str ''error''))]),
              s\<lparr>temp_file := None\<rparr>))
      else
        (case py_print (stdout env) (str ''Using AssemblyAI for transcription'') of
           Inl e \<Rightarrow> (Inl e, s)
         | Inr u \<Rightarrow>
             (let s1 = s\<lparr>log := log s @ [Transcribe audio_file]\<rparr>
              in case transcribe env audio_file of
                   Inl m \<Rightarrow> (Inl (Raised ProviderError m), s1)
                 | Inr t \<Rightarrow>
                     (let text = (case t of Some x \<Rightarrow> x | None \<Rightarrow> [])
                      in case py_print (stdout env) (str ''AssemblyAI transcription result: '' @ text) of
                           Inl e \<Rightarrow> (Inl e, s1)
                         | Inr u \<Rightarrow>
                             (Inr (JsonResponse 200
                                [(''transcript'', JStr text), (''status'', JStr (str ''success''))]),
                              s1\<lparr>temp_file := None\<rparr>)))))"

definition transcribe_with_assemblyai ::
  "pystr \<Rightarrow> env \<Rightarrow> (pystr \<times> bytes) list \<Rightarrow> state \<Rightarrow> (exn + response) \<times> state" where
  "transcribe_with_assemblyai api_key env files s =
     (case map_of files (str ''audio'') of
        None \<Rightarrow> (Inr (JsonResponse 400 [(''error'', JStr (str ''No audio file provided''))]), s)
      | Some audio_file \<Rightarrow>
          (case transcribe_try api_key env audio_file (s\<lparr>temp_file := Some audio_file\<rparr>) of
             (Inr r, s') \<Rightarrow> (Inr r, s')
           | (Inl e, s') \<Rightarrow>
               (case py_print (stdout env) (str ''Error in AssemblyAI transcription: '' @ exn_str e) of
                  Inl e' \<Rightarrow> (Inl e', s')
                | Inr u \<Rightarrow>
                    (Inr (JsonResponse 500
                       [(''transcript'', JStr []),
                        (''error'', JStr (str ''AssemblyAI error: '' @ exn_str e)),
                        (''status'', JStr (str ''error''))]),
                     s'\<lparr>temp_file := None\<rparr>))))"

section \<open>Notions used to state the properties\<close>

text \<open>
  A sequence of calls of \<open>cached_text_to_speech\<close>, each under its own behaviour of the
  provider, from the empty cache. Beside the state it gives the texts of the calls that
  returned a value (from the cache or from the provider), oldest first.
\<close>

definition tts_step :: "state \<times> pystr list \<Rightarrow> env \<times> pystr \<Rightarrow> state \<times> pystr list" where
  "tts_step sh req =
     (case sh of (s, hist) \<Rightarrow>
        (case req of (env, t) \<Rightarrow>
           (case cached_text_to_speech env t s of
              (Inr v, s') \<Rightarrow> (s', hist @ [t])
            | (Inl e, s') \<Rightarrow> (s', hist))))"

definition run_tts :: "(env \<times> pystr) list \<Rightarrow> state \<times> pystr list" where
  "run_tts reqs = foldl tts_step (init, []) reqs"

text \<open>The cache holds the most recently used texts, the most recent first.\<close>

definition lru_inv :: "state \<times> pystr list \<Rightarrow> bool" where
  "lru_inv sh = (map fst (cache (fst sh)) = take maxsize (rev (remdups (snd sh))))"

text \<open>The state once the free provider has been called.\<close>

definition after_free :: "env \<Rightarrow> pystr \<Rightarrow> state \<Rightarrow> state" where
  "after_free env t s = s\<lparr>log := log s @ [RequestsGet t], clock := clock s + requests_secs env t\<rparr>"

text \<open>The free provider gives nothing usable: an exception, another status than 200, or no bytes.\<close>

definition free_fails :: "env \<Rightarrow> pystr \<Rightarrow> bool" where
  "free_fails env t =
     (case requests_get env t of
        Inl e \<Rightarrow> True
      | Inr reply \<Rightarrow> status_code reply \<noteq> 200 \<or> content reply = [])"

text \<open>The number of calls of the paid provider's client so far.\<close>

fun is_paid :: "call \<Rightarrow> bool" where
  "is_paid (ClientGenerate t) = True"
| "is_paid c = False"

definition paid_calls :: "state \<Rightarrow> nat" where
  "paid_calls s = length (filter is_paid (log s))"

text \<open>\<open>generate_audio\<close> called again and again for one text, the providers behaving as they like.\<close>

fun repeat_audio :: "env list \<Rightarrow> pystr \<Rightarrow> state \<Rightarrow> state" where
  "repeat_audio [] t s = s"
| "repeat_audio (env # envs) t s = repeat_audio envs t (snd (generate_audio env t s))"

text \<open>The messages forwarded to the conversational backend.\<close>

fun sent :: "call list \<Rightarrow> json list" where
  "sent [] = []"
| "sent (SendMessage m # cs) = m # sent cs"
| "sent (c # cs) = sent cs"

text \<open>
  A sample world in which every external service is down, with an ASCII message, and
  standard output is ASCII.
\<close>

definition env_down :: env where
  "env_down =
     \<lparr>requests_get = (\<lambda>t. Inl (Raised ProviderError (str ''connection refused''))),
      requests_secs = (\<lambda>t. 0),
      client_generate = (\<lambda>t. Inl (Raised ProviderError (str ''connection refused''))),
      client_secs = (\<lambda>t. 0),
      send_message = (\<lambda>m. Inl (Raised ProviderError (str ''connection refused''))),
      send_secs = (\<lambda>m. 0),
      transcribe = (\<lambda>f. Inl (str ''connection refused'')),
      stdout = Ascii\<rparr>"

text \<open>
  A sample world for the chat endpoint: the conversational backend answers, the free
  provider answers with audio after 30 seconds, the paid provider is down.
\<close>

definition env_slow :: env where
  "env_slow =
     env_down\<lparr>send_message := \<lambda>m. Inr (str ''Hi there''),
              requests_get := \<lambda>t. Inr \<lparr>status_code = 200, content = [73, 68, 51]\<rparr>,
              requests_secs := \<lambda>t. 30\<rparr>"

text \<open>
  The HTTP status of the answer: that of the response the handler returned, and 500 when
  an exception leaves the handler, which Flask answers with its own error page. Then the
  two classes of error statuses.
\<close>

definition status_of :: "(exn + response) \<times> state \<Rightarrow> nat option" where
  "status_of x = (case fst x of Inr r \<Rightarrow> Some (http_status r) | Inl e \<Rightarrow> Some 500)"

definition client_error :: "nat \<Rightarrow> bool" where
  "client_error c = (400 \<le> c \<and> c < 500)"

definition server_error :: "nat \<Rightarrow> bool" where
  "server_error c = (500 \<le> c \<and> c < 600)"

text \<open>The value under a key of a JSON body; an audio body has no keys.\<close>

fun body_field :: "response \<Rightarrow> string \<Rightarrow> json option" where
  "body_field (JsonResponse c d) k = map_of d k"
| "body_field (AudioResponse c m b) k = None"

text \<open>
  Sample worlds in which the paid provider fails with a message that holds a snowman
  (U+2603), which ASCII does not have: the client raises at once, or its iterator raises
  while it is drained after the free provider answered 503.
\<close>

definition env_snowman :: env where
  "env_snowman = env_down\<lparr>client_generate := \<lambda>t. Inl (Raised ProviderError [9731])\<rparr>"

definition env_stream_snowman :: env where
  "env_stream_snowman =
     env_down\<lparr>requests_get := \<lambda>t. Inr \<lparr>status_code = 503, content = []\<rparr>,
              client_generate := \<lambda>t. Inr (Chunks [[73, 68]] (Some (Raised ProviderError [9731])))\<rparr>"

section \<open>Lemmas\<close>

lemma encodes_ascii: "c < 128 \<Longrightarrow> encodes k c"
  by (cases k) simp_all

lemma print_ascii: "list_all (\<lambda>c. c < 128) s \<Longrightarrow> py_print k s = Inr ()"
  by (simp add: py_print_def list_all_iff encodes_ascii)

lemma free_tts_state: "snd (generate_free_tts env t s) = after_free env t s"
  by (simp add: generate_free_tts_def after_free_def Let_def split: sum.split)

lemma free_tts_ok:
  "requests_get env t = Inr reply \<Longrightarrow> status_code reply = 200 \<Longrightarrow>
   generate_free_tts env t s = (Inr (Some (content reply)), after_free env t s)"
  by (simp add: generate_free_tts_def after_free_def Let_def)

lemma cached_result_stored:
  assumes "cached_text_to_speech env t s = (Inr v, s')"
  shows "map_of (cache s') t = Some v"
  using assms
  by (auto simp: cached_text_to_speech_def cached_text_to_speech_wrapped_def Let_def lru_hit_def
      lru_store_def maxsize_def split: option.splits sum.splits prod.splits if_splits)

lemma cached_hit:
  assumes "map_of (cache s) t = Some v"
  shows "cached_text_to_speech env t s = (Inr v, s\<lparr>cache := lru_hit t v (cache s)\<rparr>)"
  using assms by (simp add: cached_text_to_speech_def)

lemma cached_miss_log:
  assumes "map_of (cache s) t = None"
  shows "log (snd (cached_text_to_speech env t s)) = log s @ [ClientGenerate t]"
  using assms
  by (auto simp: cached_text_to_speech_def cached_text_to_speech_wrapped_def Let_def 
       split: option.splits sum.splits prod.splits if_splits)

lemma remdups_snoc: "remdups (xs @ [x]) = filter (\<lambda>y. y \<noteq> x) (remdups xs) @ [x]"
  by (induction xs) auto

lemma filter_take_hit:
  "distinct R \<Longrightarrow> t \<in> set (take n R) \<Longrightarrow>
   filter (\<lambda>y. y \<noteq> t) (take n R) = take (n - 1) (filter (\<lambda>y. y \<noteq> t) R)"
proof (induction R arbitrary: n)
  case Nil
  then show ?case by simp
next
  case (Cons x xs)
  then obtain m where n: "n = Suc m" by (cases n) auto
  show ?case
  proof (cases "x = t")
    case True
    with Cons.prems have "t \<notin> set xs" by simp
    then have "filter (\<lambda>y. y \<noteq> t) xs = xs" by (auto simp: filter_id_conv)
    moreover from \<open>t \<notin> set xs\<close> have "filter (\<lambda>y. y \<noteq> t) (take m xs) = take m xs"
      by (auto simp: filter_id_conv dest: in_set_takeD)
    ultimately show ?thesis using True n by simp
  next
    case False
    with Cons.prems n have mem: "t \<in> set (take m xs)" by simp
    then have "m \<noteq> 0" by (cases m) auto
    then obtain k where m: "m = Suc k" by (cases m) auto
    from Cons.IH [of m] Cons.prems mem
    have "filter (\<lambda>y. y \<noteq> t) (take m xs) = take (m - 1) (filter (\<lambda>y. y \<noteq> t) xs)" by simp
    then show ?thesis using False n m by simp
  qed
qed

lemma take_filter_miss:
  "t \<notin> set (take n R) \<Longrightarrow> take n (filter (\<lambda>y. y \<noteq> t) R) = take n R"
proof (induction R arbitrary: n)
  case Nil
  then show ?case by simp
next
  case (Cons x xs)
  then show ?case by (cases n) auto
qed

lemma wrapped_cache: "cache (snd (cached_text_to_speech_wrapped env t s)) = cache s"
  by (simp add: cached_text_to_speech_wrapped_def Let_def split: sum.split)

lemma keys_eq_None: "map_of c t = None \<longleftrightarrow> t \<notin> set (map fst c)"
  by (simp add: map_of_eq_None_iff)

lemma lru_store_keys:
  assumes "map_of c t = None" and "map fst c = take maxsize R"
  shows "map fst (lru_store t v c) = take maxsize (t # filter (\<lambda>y. y \<noteq> t) R)"
proof -
  from assms have notin: "t \<notin> set (take maxsize R)" by (simp add: keys_eq_None)
  then have notin': "t \<notin> set (take (maxsize - 1) R)"
    by (metis diff_le_self set_take_subset_set_take subsetD)
  have len: "length c = min (length R) maxsize"
    using assms(2) by (metis length_map length_take)
  have tk: "take maxsize (t # filter (\<lambda>y. y \<noteq> t) R) = t # take (maxsize - 1) R"
    using take_filter_miss [OF notin'] by (simp add: maxsize_def)
  show ?thesis
  proof (cases "maxsize \<le> length c")
    case True
    then have "maxsize \<le> length R" using len by simp
    then have "butlast (take maxsize R) = take (maxsize - 1) R"
      by (simp add: butlast_take)
    then show ?thesis using True assms tk by (simp add: lru_store_def map_butlast)
  next
    case False
    then have "length R < maxsize" using len by simp
    then have "take maxsize R = R" "take (maxsize - 1) R = R" by simp_all
    then show ?thesis using False assms tk by (simp add: lru_store_def)
  qed
qed

lemma lru_hit_keys:
  assumes "map_of c t = Some v" and "map fst c = take maxsize R" and "distinct R"
  shows "map fst (lru_hit t v c) = take maxsize (t # filter (\<lambda>y. y \<noteq> t) R)"
proof -
  from assms(1) have "t \<in> set (map fst c)"
    by (metis keys_eq_None option.distinct(1))
  then have mem: "t \<in> set (take maxsize R)" using assms(2) by simp
  have "map fst (lru_hit t v c) = t # filter (\<lambda>y. y \<noteq> t) (take maxsize R)"
    using assms(2) by (simp add: lru_hit_def filter_map comp_def flip: assms(2))
  also have "\<dots> = t # take (maxsize - 1) (filter (\<lambda>y. y \<noteq> t) R)"
    using filter_take_hit [OF assms(3) mem] by simp
  also have "\<dots> = take maxsize (t # filter (\<lambda>y. y \<noteq> t) R)"
    by (simp add: maxsize_def)
  finally show ?thesis .
qed

lemma tts_step_inv:
  assumes "lru_inv sh"
  shows "lru_inv (tts_step sh req)"
proof -
  obtain s hist where sh: "sh = (s, hist)" by (cases sh)
  obtain env t where req: "req = (env, t)" by (cases req)
  define R where "R = rev (remdups hist)"
  have inv: "map fst (cache s) = take maxsize R" and dR: "distinct R"
    using assms sh by (simp_all add: lru_inv_def R_def)
  have R': "rev (remdups (hist @ [t])) = t # filter (\<lambda>y. y \<noteq> t) R"
    by (simp add: remdups_snoc R_def rev_filter)
  show ?thesis
  proof (cases "map_of (cache s) t")
    case (Some v)
    then show ?thesis
      using lru_hit_keys [OF Some inv dR] sh req R'
      by (simp add: tts_step_def cached_text_to_speech_def lru_inv_def)
  next
    case None
    obtain r s1 where w: "cached_text_to_speech_wrapped env t s = (r, s1)"
      by (cases "cached_text_to_speech_wrapped env t s")
    then have c1: "cache s1 = cache s" using wrapped_cache [of env t s] by simp
    show ?thesis
    proof (cases r)
      case (Inl e)
      then show ?thesis using None w sh req inv c1
        by (simp add: tts_step_def cached_text_to_speech_def lru_inv_def R_def)
    next
      case (Inr v)
      from None c1 have "map_of (cache s1) t = None" by simp
      from lru_store_keys [OF this, of R v] inv c1
      have "map fst (lru_store t v (cache s1)) = take maxsize (t # filter (\<lambda>y. y \<noteq> t) R)"
        by simp
      then show ?thesis using None w sh req Inr R'
        by (simp add: tts_step_def cached_text_to_speech_def lru_inv_def)
    qed
  qed
qed

lemma foldl_tts_inv: "lru_inv sh \<Longrightarrow> lru_inv (foldl tts_step sh reqs)"
  by (induction reqs arbitrary: sh) (simp_all add: tts_step_inv)

lemma run_tts_inv: "lru_inv (run_tts reqs)"
  unfolding run_tts_def by (rule foldl_tts_inv) (simp add: lru_inv_def init_def)

lemma cached_miss:
  "map_of (cache s) t = None \<Longrightarrow> client_generate env t = Inr g \<Longrightarrow> join_bytes g = Inr B \<Longrightarrow>
   fst (cached_text_to_speech env t s) = Inr B"
  by (simp add: cached_text_to_speech_def cached_text_to_speech_wrapped_def Let_def)

lemma cached_log:
  "log (snd (cached_text_to_speech env t s)) = log s \<or>
   log (snd (cached_text_to_speech env t s)) = log s @ [ClientGenerate t]"
  by (cases "map_of (cache s) t") (simp_all add: cached_hit cached_miss_log)

lemma cached_clock: "clock s \<le> clock (snd (cached_text_to_speech env t s))"
  by (simp add: cached_text_to_speech_def cached_text_to_speech_wrapped_def Let_def
      split: option.split sum.split)

lemma audio_elevenlabs_state:
  "snd (audio_elevenlabs env t s) = snd (cached_text_to_speech env t s)"
  by (simp add: audio_elevenlabs_def split: prod.split sum.split)

lemma generate_audio_state:
  "snd (generate_audio env t s) = after_free env t s \<or>
   snd (generate_audio env t s) = snd (cached_text_to_speech env t (after_free env t s))"
proof -
  obtain r s1 where f: "generate_free_tts env t s = (r, s1)"
    by (cases "generate_free_tts env t s")
  then have s1: "s1 = after_free env t s" using free_tts_state [of env t s] by simp
  show ?thesis
    using f s1 audio_elevenlabs_state [of env t "after_free env t s"]
    by (auto simp: generate_audio_def split: sum.split)
qed

lemma generate_audio_log_prefix:
  "\<exists>rest. log (snd (generate_audio env t s)) = log s @ RequestsGet t # rest \<and>
     (rest = [] \<or> rest = [ClientGenerate t])"
  using generate_audio_state [of env t s] cached_log [of env t "after_free env t s"]
  by (auto simp: after_free_def)

lemma generate_audio_clock: "clock s \<le> clock (snd (generate_audio env t s))"
proof -
  have "clock s \<le> clock (after_free env t s)" by (simp add: after_free_def)
  with cached_clock [of "after_free env t s" env t] generate_audio_state [of env t s]
  show ?thesis by auto
qed

lemma generate_audio_cached:
  assumes "map_of (cache s) t = Some v"
  shows "map_of (cache (snd (generate_audio env t s))) t = Some v \<and>
         paid_calls (snd (generate_audio env t s)) = paid_calls s"
proof -
  have m: "map_of (cache (after_free env t s)) t = Some v"
    using assms by (simp add: after_free_def)
  have p: "paid_calls (after_free env t s) = paid_calls s"
    by (simp add: after_free_def paid_calls_def)
  from generate_audio_state [of env t s] show ?thesis
  proof
    assume "snd (generate_audio env t s) = after_free env t s"
    then show ?thesis using m p by simp
  next
    assume "snd (generate_audio env t s) = snd (cached_text_to_speech env t (after_free env t s))"
    then show ?thesis using cached_hit [OF m, of env] p
      by (simp add: lru_hit_def paid_calls_def)
  qed
qed

lemma repeat_audio_cached:
  "map_of (cache s) t = Some v \<Longrightarrow> paid_calls (repeat_audio envs t s) = paid_calls s"
proof (induction envs arbitrary: s)
  case Nil
  then show ?case by simp
next
  case (Cons env envs)
  from generate_audio_cached [OF Cons.prems, of env]
  have "map_of (cache (snd (generate_audio env t s))) t = Some v"
    and "paid_calls (snd (generate_audio env t s)) = paid_calls s" by simp_all
  then show ?case using Cons.IH [of "snd (generate_audio env t s)"] by simp
qed

lemma result_after_shutdown:
  "future_result fut timeout (shutdown_wait fut s) =
     (outcome fut, s\<lparr>clock := max (clock s) (finish_at fut)\<rparr>)"
proof -
  have "finish_at fut \<le> max (clock s) (finish_at fut) + timeout" by simp
  then show ?thesis by (simp add: future_result_def shutdown_wait_def)
qed

lemma chat_audio_state: "snd (chat_audio env t s) = snd (generate_audio env t s)"
proof -
  obtain a s' where g: "generate_audio env t s = (a, s')"
    by (cases "generate_audio env t s")
  have "clock s \<le> clock s'" using generate_audio_clock [of s env t] g by simp
  then have st: "s'\<lparr>clock := max (clock s) (clock s')\<rparr> = s'" by (simp add: max_def)
  show ?thesis
    using g st
    by (simp add: chat_audio_def submit_def result_after_shutdown
        split: sum.split option.split)
qed

lemma sent_append: "sent (xs @ ys) = sent xs @ sent ys"
  by (induction xs rule: sent.induct) simp_all

lemma generate_audio_sent: "sent (log (snd (generate_audio env t s))) = sent (log s)"
  using generate_audio_log_prefix [of env t s] by (auto simp: sent_append)

lemma chat_try_str_sent:
  "sent (log (snd (chat_try env (JStr m) s))) =
     sent (log s) @ [JStr (if 500 < length m then take 500 m @ str ''...'' else m)]"
  by (simp add: chat_try_def py_len_def truncate_message_def Let_def chat_audio_state
      generate_audio_sent sent_append split: sum.split)

lemma chat_endpoint_state:
  "json_get payload key = Inr um \<Longrightarrow>
   key = str ''message'' \<Longrightarrow> snd (chat_endpoint env payload s) = snd (chat_try env um s)"
  by (simp add: chat_endpoint_def split: prod.split sum.split)

lemma print_len_error:
  "py_print k (str ''Error in chat endpoint: '' @
     exn_str (Raised TypeError (str (''object of type '' @ quoted (type_name JNull) @ '' has no len()''))))
   = Inr ()"
  by (rule print_ascii) (simp add: str_def quoted_def quote_def)

lemma cached_full_miss:
  assumes "length (cache s) = maxsize" and "map_of (cache s) t = None"
    and "cached_text_to_speech env t s = (Inr v, s')"
  shows "cache s' = (t, v) # butlast (cache s)"
proof -
  obtain r s1 where w: "cached_text_to_speech_wrapped env t s = (r, s1)"
    by (cases "cached_text_to_speech_wrapped env t s")
  then have c1: "cache s1 = cache s" using wrapped_cache [of env t s] by simp
  from assms(2,3) w have "r = Inr v" and "s' = s1\<lparr>cache := lru_store t v (cache s1)\<rparr>"
    by (auto simp: cached_text_to_speech_def split: sum.splits)
  then show ?thesis using c1 assms(1,2) by (simp add: lru_store_def)
qed

lemma cached_again:
  assumes "cached_text_to_speech env t s = (Inr v, s')"
  shows "cached_text_to_speech env' t s' = (Inr v, s'\<lparr>cache := lru_hit t v (cache s')\<rparr>)"
  using cached_result_stored [OF assms] by (rule cached_hit)

lemma print_no_key: "py_print k (str ''No valid AssemblyAI API key found'') = Inr ()"
  by (rule print_ascii) (simp add: str_def)

lemma print_using: "py_print k (str ''Using AssemblyAI for transcription'') = Inr ()"
  by (rule print_ascii) (simp add: str_def)

lemma hex4:
  "hex 4 n = [hex_digit (n div 16 div 16 div 16), hex_digit (n div 16 div 16),
              hex_digit (n div 16), hex_digit n]"
proof -
  have "(4::nat) = Suc (Suc (Suc (Suc 0)))" by simp
  then show ?thesis by (simp only: hex.simps append.simps)
qed

lemma snowman_error:
  assumes "list_all (\<lambda>c. of_char c < (128::nat)) prefix" and "length prefix = n"
  shows "encode_error_text Ascii (str prefix @ [9731]) =
     str (quoted ''ascii'' @ '' codec can't encode character '' @ quoted (backslash @ ''u2603'') @
          '' in position '' @ decimal n @ '': ordinal not in range(128)'')"
proof -
  have enc: "list_all (encodes Ascii) (str prefix)"
    using assms(1) by (simp add: str_def list_all_iff)
  then have tw: "takeWhile (encodes Ascii) (str prefix @ [9731]) = str prefix"
    by (simp add: list_all_iff takeWhile_append2)
  have len: "length (str prefix) = n" using assms(2) by (simp add: str_def)
  have esc: "escape 9731 = backslash @ ''u2603''"
    by (simp add: escape_def hex4 hex_digit_def)
  show ?thesis
    by (simp add: encode_error_text_def tw len esc Let_def)
qed

lemma print_snowman:
  assumes "list_all (\<lambda>c. of_char c < (128::nat)) prefix" and "length prefix = n"
  shows "py_print Ascii (str prefix @ [9731]) =
     Inl (Raised UnicodeEncodeError
       (str (quoted ''ascii'' @ '' codec can't encode character '' @ quoted (backslash @ ''u2603'') @
          '' in position '' @ decimal n @ '': ordinal not in range(128)'')))"
  using snowman_error [OF assms] by (simp add: py_print_def)

lemma decimal_26: "decimal 26 = ''26''"
  by (simp add: decimal.simps hex_digit_def)

lemma decimal_24: "decimal 24 = ''24''"
  by (simp add: decimal.simps hex_digit_def)

lemma print_refused:
  "py_print k (str ''Error with free TTS: '' @ str ''connection refused'') = Inr ()"
  by (rule print_ascii) (simp add: str_def)

lemma hex_digit_ascii: "of_char (hex_digit n) < (128::nat)"
proof -
  have "\<forall>c \<in> set ''0123456789abcdef''. of_char c < (128::nat)" by simp
  moreover have "hex_digit n \<in> set ''0123456789abcdef''"
    unfolding hex_digit_def by (rule nth_mem) simp
  ultimately show ?thesis by blast
qed

lemma decimal_ascii: "list_all (\<lambda>c. of_char c < (128::nat)) (decimal n)"
proof (induction n rule: decimal.induct)
  case (1 n)
  then show ?case
    by (subst decimal.simps) (simp add: hex_digit_ascii)
qed

lemma print_status:
  "py_print k (str (''Free TTS API error: '' @ decimal n)) = Inr ()"
proof (rule print_ascii)
  have "list_all (\<lambda>c. c < 128) (str (decimal n))"
    using decimal_ascii [of n] by (simp add: str_def list_all_iff)
  then show "list_all (\<lambda>c. c < 128) (str (''Free TTS API error: '' @ decimal n))"
    by (simp add: str_def)
qed

lemma free_tts_not_200:
  assumes "requests_get env t = Inr reply" and "status_code reply \<noteq> 200"
  shows "generate_free_tts env t s = (Inr None, after_free env t s)"
  using assms print_status [of "stdout env" "status_code reply"]
  by (simp add: generate_free_tts_def after_free_def Let_def)

lemma free_tts_snowman:
  "generate_free_tts env_snowman (str ''Hello'') init =
     (Inr None, init\<lparr>log := [RequestsGet (str ''Hello'')]\<rparr>)"
  by (simp add: generate_free_tts_def env_snowman_def env_down_def init_def print_refused)

lemma free_tts_stream_snowman:
  "generate_free_tts env_stream_snowman (str ''Hello'') init =
     (Inr None, init\<lparr>log := [RequestsGet (str ''Hello'')]\<rparr>)"
proof -
  have "requests_get env_stream_snowman (str ''Hello'') = Inr \<lparr>status_code = 503, content = []\<rparr>"
    by (simp add: env_stream_snowman_def)
  from free_tts_not_200 [OF this, of init] show ?thesis
    by (simp add: after_free_def env_stream_snowman_def env_down_def init_def)
qed

lemma cached_snowman:
  "cached_text_to_speech env_snowman (str ''Hello'') (init\<lparr>log := l\<rparr>) =
     (Inl (Raised ProviderError [9731]), init\<lparr>log := l @ [ClientGenerate (str ''Hello'')]\<rparr>)"
  by (simp add: cached_text_to_speech_def cached_text_to_speech_wrapped_def env_snowman_def
      env_down_def init_def)

lemma cached_stream_snowman:
  "cached_text_to_speech env_stream_snowman (str ''Hello'') (init\<lparr>log := l\<rparr>) =
     (Inl (Raised ProviderError [9731]), init\<lparr>log := l @ [ClientGenerate (str ''Hello'')]\<rparr>)"
  by (simp add: cached_text_to_speech_def cached_text_to_speech_wrapped_def join_bytes_def
      env_stream_snowman_def env_down_def init_def)

lemma print_elevenlabs_snowman:
  "py_print Ascii (str ''ElevenLabs error in chat: '' @ [9731]) =
     Inl (Raised UnicodeEncodeError
       (str (quoted ''ascii'' @ '' codec can't encode character '' @ quoted (backslash @ ''u2603'') @
          '' in position 26: ordinal not in range(128)'')))"
  using print_snowman [of "''ElevenLabs error in chat: ''" 26] by (simp add: decimal_26)

lemma print_audio_snowman:
  "py_print Ascii (str ''Error generating audio: '' @ [9731]) =
     Inl (Raised UnicodeEncodeError
       (str (quoted ''ascii'' @ '' codec can't encode character '' @ quoted (backslash @ ''u2603'') @
          '' in position 24: ordinal not in range(128)'')))"
  using print_snowman [of "''Error generating audio: ''" 24] by (simp add: decimal_24)

lemma init_logged:
  "init\<lparr>log := l\<rparr> = \<lparr>cache = [], log = l, clock = 0, temp_file = None\<rparr>"
  by (simp add: init_def)

lemma generate_audio_free_ok:
  "requests_get env t = Inr reply \<Longrightarrow> status_code reply = 200 \<Longrightarrow> content reply \<noteq> [] \<Longrightarrow>
   generate_audio env t s = (Inr (Some (content reply)), after_free env t s)"
  by (simp add: generate_audio_def free_tts_ok truthy_def)

lemma print_all: "(\<And>c. encodes k c) \<Longrightarrow> py_print k s = Inr ()"
  by (simp add: py_print_def list_all_iff)

lemma generate_audio_returns_if_printable:
  assumes "\<And>c. encodes (stdout env) c"
  shows "\<exists>r s'. generate_audio env t s = (Inr r, s') \<and> (r = None \<or> (\<exists>b. r = Some b \<and> b \<noteq> []))"
proof -
  have p: "py_print (stdout env) m = Inr ()" for m using assms by (rule print_all)
  have e: "\<exists>r s'. audio_elevenlabs env t s1 = (Inr r, s') \<and> (r = None \<or> (\<exists>b. r = Some b \<and> b \<noteq> []))"
    for s1
    by (simp add: audio_elevenlabs_def p truthy_def split: prod.split sum.split)
  have "\<exists>r1. generate_free_tts env t s = (Inr r1, after_free env t s)"
    by (simp add: generate_free_tts_def after_free_def Let_def p split: sum.split)
  then obtain r1 where f: "generate_free_tts env t s = (Inr r1, after_free env t s)" by blast
  show ?thesis
  proof (cases "truthy r1")
    case True
    then show ?thesis using f by (auto simp: generate_audio_def truthy_def split: option.splits)
  next
    case False
    then show ?thesis using f e [of "after_free env t s"] by (simp add: generate_audio_def)
  qed
qed

section \<open>Properties of the fallback synthesizer\<close>

text \<open>
  C1. The docstrings of \<open>generate_free_tts\<close> and \<open>generate_audio\<close> promise bytes or
  \<open>None\<close>, and every stage sits in a \<open>try\<close> block. But each \<open>except\<close> clause prints the
  exception it caught before it goes on, and that \<open>print\<close> raises when standard output
  cannot encode the message. With an ASCII standard output, the free provider down and
  the paid provider failing with a message that holds the character U+2603,
  \<open>generate_audio\<close> raises \<open>UnicodeEncodeError\<close> where it should return \<open>None\<close>.
  (Where standard output encodes every character the function does return \<open>None\<close> or
  non-empty bytes: lemma \<open>generate_audio_returns_if_printable\<close>.)
\<close>

theorem generate_audio_raises:
  "generate_audio env_snowman (str ''Hello'') init =
     (Inl (Raised UnicodeEncodeError
        (str (quoted ''ascii'' @ '' codec can't encode character '' @ quoted (backslash @ ''u2603'') @
              '' in position 26: ordinal not in range(128)''))),
      \<lparr>cache = [], log = [RequestsGet (str ''Hello''), ClientGenerate (str ''Hello'')],
       clock = 0, temp_file = None\<rparr>)"
proof -
  have so: "stdout env_snowman = Ascii" by (simp add: env_snowman_def env_down_def)
  have "generate_audio env_snowman (str ''Hello'') init =
     (Inl (Raised UnicodeEncodeError
        (str (quoted ''ascii'' @ '' codec can't encode character '' @ quoted (backslash @ ''u2603'') @
              '' in position 26: ordinal not in range(128)''))),
      init\<lparr>log := [RequestsGet (str ''Hello''), ClientGenerate (str ''Hello'')]\<rparr>)"
    using print_elevenlabs_snowman
    by (simp add: generate_audio_def audio_elevenlabs_def free_tts_snowman cached_snowman so
        truthy_def)
  then show ?thesis by (simp only: init_logged)
qed

text \<open>
  C2. The order of the providers is the one claimed: the free provider is called first
  and its non-empty answer returned at once, then the cached paid path. What fails is the
  end of the chain. Here the free provider answers 503, the iterator of the paid provider
  raises while it is joined, with a message that holds U+2603, and standard output is
  ASCII: both providers have failed, and \<open>generate_audio\<close> raises from the \<open>print\<close> of its
  last \<open>except\<close> clause where it should return \<open>None\<close>.
\<close>

theorem fallback_both_fail_raises:
  "requests_get env_stream_snowman (str ''Hello'') = Inr \<lparr>status_code = 503, content = []\<rparr> \<and>
   client_generate env_stream_snowman (str ''Hello'') =
     Inr (Chunks [[73, 68]] (Some (Raised ProviderError [9731]))) \<and>
   generate_audio env_stream_snowman (str ''Hello'') init =
     (Inl (Raised UnicodeEncodeError
        (str (quoted ''ascii'' @ '' codec can't encode character '' @ quoted (backslash @ ''u2603'') @
              '' in position 26: ordinal not in range(128)''))),
      \<lparr>cache = [], log = [RequestsGet (str ''Hello''), ClientGenerate (str ''Hello'')],
       clock = 0, temp_file = None\<rparr>)"
proof -
  have so: "stdout env_stream_snowman = Ascii" by (simp add: env_stream_snowman_def env_down_def)
  have "generate_audio env_stream_snowman (str ''Hello'') init =
     (Inl (Raised UnicodeEncodeError
        (str (quoted ''ascii'' @ '' codec can't encode character '' @ quoted (backslash @ ''u2603'') @
              '' in position 26: ordinal not in range(128)''))),
      init\<lparr>log := [RequestsGet (str ''Hello''), ClientGenerate (str ''Hello'')]\<rparr>)"
    using print_elevenlabs_snowman
    by (simp add: generate_audio_def audio_elevenlabs_def free_tts_stream_snowman
        cached_stream_snowman so truthy_def)
  then have "generate_audio env_stream_snowman (str ''Hello'') init =
     (Inl (Raised UnicodeEncodeError
        (str (quoted ''ascii'' @ '' codec can't encode character '' @ quoted (backslash @ ''u2603'') @
              '' in position 26: ordinal not in range(128)''))),
      \<lparr>cache = [], log = [RequestsGet (str ''Hello''), ClientGenerate (str ''Hello'')],
       clock = 0, temp_file = None\<rparr>)"
    by (simp only: init_logged)
  moreover have "requests_get env_stream_snowman (str ''Hello'') =
      Inr \<lparr>status_code = 503, content = []\<rparr>"
    by (simp add: env_stream_snowman_def)
  moreover have "client_generate env_stream_snowman (str ''Hello'') =
     Inr (Chunks [[73, 68]] (Some (Raised ProviderError [9731])))"
    by (simp add: env_stream_snowman_def)
  ultimately show ?thesis by (intro conjI)
qed

section \<open>Properties of the synthesis cache\<close>

text \<open>
  C4. The cache of \<open>cached_text_to_speech\<close> has room for 128 entries, looked up by the
  exact text. After any sequence of calls from the empty cache it holds at most 128
  entries, namely the most recently used distinct texts, the most recent first (a use is a
  call that returned, from the cache or from the provider). A value stored for a new text
  while 128 entries are held takes the place of the least recently used entry, the last
  in that order. A call right after a call that returned \<open>v\<close> for the same text is a
  hit: it returns \<open>v\<close> again and calls nothing outside.
\<close>

theorem lru_cache_capacity_and_recency:
  "maxsize = 128 \<and>
   (case run_tts reqs of (s0, hist) \<Rightarrow>
      length (cache s0) \<le> 128 \<and> map fst (cache s0) = take 128 (rev (remdups hist))) \<and>
   (length (cache s) = 128 \<and> map_of (cache s) t = None \<and>
    cached_text_to_speech env t s = (Inr v, s') \<longrightarrow>
      cache s' = (t, v) # butlast (cache s)) \<and>
   (cached_text_to_speech env t s = (Inr v, s') \<longrightarrow>
      (\<exists>s''. cached_text_to_speech env' t s' = (Inr v, s'') \<and> log s'' = log s'))"
proof (intro conjI impI)
  show "maxsize = 128" by (simp add: maxsize_def)
next
  obtain s0 hist where r: "run_tts reqs = (s0, hist)" by (cases "run_tts reqs")
  with run_tts_inv [of reqs] have k: "map fst (cache s0) = take 128 (rev (remdups hist))"
    by (simp add: lru_inv_def maxsize_def)
  have "length (map fst (cache s0)) \<le> 128" unfolding k by simp
  then have "length (cache s0) \<le> 128" by simp
  then show "case run_tts reqs of (s0, hist) \<Rightarrow>
      length (cache s0) \<le> 128 \<and> map fst (cache s0) = take 128 (rev (remdups hist))"
    using r k by simp
next
  assume "length (cache s) = 128 \<and> map_of (cache s) t = None \<and>
    cached_text_to_speech env t s = (Inr v, s')"
  then show "cache s' = (t, v) # butlast (cache s)"
    using cached_full_miss [of s t env v s'] by (simp add: maxsize_def)
next
  assume "cached_text_to_speech env t s = (Inr v, s')"
  from cached_again [OF this, of env']
  show "\<exists>s''. cached_text_to_speech env' t s' = (Inr v, s'') \<and> log s'' = log s'" by simp
qed

theorem lru_cache_capacity_and_recency_witness:
  "length (cache (init\<lparr>cache := map (\<lambda>i. ([i], [])) [0..<128]\<rparr>)) = 128 \<and>
   map_of (cache (init\<lparr>cache := map (\<lambda>i. ([i], [])) [0..<128]\<rparr>)) [128] = None \<and>
   fst (cached_text_to_speech (env_down\<lparr>client_generate := \<lambda>t. Inr (Whole [73, 68, 51])\<rparr>) [128]
          (init\<lparr>cache := map (\<lambda>i. ([i], [])) [0..<128]\<rparr>)) = Inr [73, 68, 51] \<and>
   cache (snd (cached_text_to_speech (env_down\<lparr>client_generate := \<lambda>t. Inr (Whole [73, 68, 51])\<rparr>)
          [128] (init\<lparr>cache := map (\<lambda>i. ([i], [])) [0..<128]\<rparr>))) =
     ([128], [73, 68, 51]) # butlast (map (\<lambda>i. ([i], [])) [0..<128]) \<and>
   fst (cached_text_to_speech env_down [128]
          (snd (cached_text_to_speech (env_down\<lparr>client_generate := \<lambda>t. Inr (Whole [73, 68, 51])\<rparr>)
             [128] (init\<lparr>cache := map (\<lambda>i. ([i], [])) [0..<128]\<rparr>)))) = Inr [73, 68, 51]"
proof -
  let ?paid = "env_down\<lparr>client_generate := \<lambda>t. Inr (Whole [73, 68, 51])\<rparr>"
  let ?s = "init\<lparr>cache := map (\<lambda>i. ([i], [])) [0..<128]\<rparr>"
  let ?s' = "snd (cached_text_to_speech ?paid [128] ?s)"
  have h1: "length (cache ?s) = 128" by simp
  have h2: "map_of (cache ?s) [128] = None" by (auto simp: map_of_eq_None_iff)
  have h3: "fst (cached_text_to_speech ?paid [128] ?s) = Inr [73, 68, 51]"
    using h2 by (simp add: cached_miss join_bytes_def)
  then have h4: "cached_text_to_speech ?paid [128] ?s = (Inr [73, 68, 51], ?s')"
    by (metis prod.collapse)
  from lru_cache_capacity_and_recency [of "[]" ?s "[128]" ?paid "[73, 68, 51]" ?s' env_down] h1 h2 h4
  have "cache ?s' = ([128], [73, 68, 51]) # butlast (cache ?s)"
    and "\<exists>s''. cached_text_to_speech env_down [128] ?s' = (Inr [73, 68, 51], s'')"
    by blast+
  then show ?thesis using h1 h2 h3 by auto
qed

text \<open>
  C5. Once a text is cached, calling \<open>generate_audio\<close> for it any number of times,
  whatever the providers do meanwhile, adds no call of the paid provider's client; so it
  is after a call of the cached path that returned. A miss makes exactly one call of
  the client, and when that call produces bytes they are returned and are in the cache
  under the text.
\<close>

theorem memoization:
  "(map_of (cache s) t \<noteq> None \<longrightarrow> paid_calls (repeat_audio envs t s) = paid_calls s) \<and>
   (cached_text_to_speech env t s = (Inr v, s') \<longrightarrow>
      paid_calls (repeat_audio envs t s') = paid_calls s') \<and>
   (map_of (cache s) t = None \<longrightarrow>
      log (snd (cached_text_to_speech env t s)) = log s @ [ClientGenerate t] \<and>
      paid_calls (snd (cached_text_to_speech env t s)) = paid_calls s + 1) \<and>
   (map_of (cache s) t = None \<and> client_generate env t = Inr g \<and> join_bytes g = Inr B \<longrightarrow>
      fst (cached_text_to_speech env t s) = Inr B \<and>
      map_of (cache (snd (cached_text_to_speech env t s))) t = Some B)"
proof (intro conjI impI)
  assume "map_of (cache s) t \<noteq> None"
  then obtain u where "map_of (cache s) t = Some u" by auto
  then show "paid_calls (repeat_audio envs t s) = paid_calls s" by (rule repeat_audio_cached)
next
  assume "cached_text_to_speech env t s = (Inr v, s')"
  then have "map_of (cache s') t = Some v" by (rule cached_result_stored)
  then show "paid_calls (repeat_audio envs t s') = paid_calls s'" by (rule repeat_audio_cached)
next
  assume m: "map_of (cache s) t = None"
  then show l: "log (snd (cached_text_to_speech env t s)) = log s @ [ClientGenerate t]"
    by (rule cached_miss_log)
  show "paid_calls (snd (cached_text_to_speech env t s)) = paid_calls s + 1"
    by (simp add: paid_calls_def l)
next
  assume a: "map_of (cache s) t = None \<and> client_generate env t = Inr g \<and> join_bytes g = Inr B"
  then show r: "fst (cached_text_to_speech env t s) = Inr B" by (simp add: cached_miss)
  then have "cached_text_to_speech env t s = (Inr B, snd (cached_text_to_speech env t s))"
    by (metis prod.collapse)
  then show "map_of (cache (snd (cached_text_to_speech env t s))) t = Some B"
    by (rule cached_result_stored)
qed

theorem memoization_witness:
  "map_of (cache init) (str ''Hello'') = None \<and>
   client_generate (env_down\<lparr>client_generate := \<lambda>t. Inr (Whole [73, 68, 51])\<rparr>) (str ''Hello'')
     = Inr (Whole [73, 68, 51]) \<and>
   join_bytes (Whole [73, 68, 51]) = Inr [73, 68, 51] \<and>
   cached_text_to_speech (env_down\<lparr>client_generate := \<lambda>t. Inr (Whole [73, 68, 51])\<rparr>)
     (str ''Hello'') init =
     (Inr [73, 68, 51],
      \<lparr>cache = [(str ''Hello'', [73, 68, 51])], log = [ClientGenerate (str ''Hello'')],
       clock = 0, temp_file = None\<rparr>) \<and>
   paid_calls
     (repeat_audio [env_down, env_down\<lparr>client_generate := \<lambda>t. Inr (Whole [73, 68, 51])\<rparr>]
        (str ''Hello'')
        \<lparr>cache = [(str ''Hello'', [73, 68, 51])], log = [ClientGenerate (str ''Hello'')],
         clock = 0, temp_file = None\<rparr>) = 1"
proof -
  let ?paid = "env_down\<lparr>client_generate := \<lambda>t. Inr (Whole [73, 68, 51])\<rparr>"
  let ?s1 = "\<lparr>cache = [(str ''Hello'', [73, 68, 51])], log = [ClientGenerate (str ''Hello'')],
       clock = 0, temp_file = None\<rparr>"
  have h1: "map_of (cache init) (str ''Hello'') = None" by (simp add: init_def)
  have h2: "client_generate ?paid (str ''Hello'') = Inr (Whole [73, 68, 51])" by simp
  have h3: "join_bytes (Whole [73, 68, 51]) = Inr [73, 68, 51]" by (simp add: join_bytes_def)
  have h4: "cached_text_to_speech ?paid (str ''Hello'') init = (Inr [73, 68, 51], ?s1)"
    by (simp add: cached_text_to_speech_def cached_text_to_speech_wrapped_def join_bytes_def
        lru_store_def maxsize_def init_def env_down_def)
  have h5: "paid_calls ?s1 = 1" by (simp add: paid_calls_def)
  show ?thesis
    using h1 h2 h3 h4 h5
      memoization [of init "str ''Hello''" "[env_down, ?paid]" ?paid "[73, 68, 51]" ?s1
        "Whole [73, 68, 51]" "[73, 68, 51]"]
    by simp
qed

section \<open>Properties of the chat endpoint\<close>

text \<open>
  C3. The comments of \<open>chat_endpoint\<close> announce a synthesis in the background that is
  awaited for at most ten seconds. In the code the future is awaited only after the
  \<open>with ThreadPoolExecutor()\<close> block has been left, and leaving it waits for the
  synthesis to finish. With a free provider that answers after 30 seconds the handler
  is blocked for these 30 seconds, and it answers with the audio and status \<open>success\<close>,
  not with \<open>audio_error\<close> after ten seconds.
\<close>

theorem chat_deadline_not_enforced:
  "chat_endpoint env_slow (JObj [(str ''message'', JStr (str ''Hello''))]) init =
     (Inr (chat_payload (str ''Hi there'') (JStr (audio_b64 [73, 68, 51])) ''success''),
      \<lparr>cache = [], log = [SendMessage (JStr (str ''Hello'')), RequestsGet (str ''Hi there'')],
       clock = 30, temp_file = None\<rparr>)"
  by (simp add: chat_endpoint_def chat_try_def chat_audio_def json_get_def py_len_def
      submit_def shutdown_wait_def future_result_def generate_audio_def generate_free_tts_def
      truthy_def env_slow_def env_down_def init_def str_def)

text \<open>
  C6. When the payload carries a text as its message, exactly one message is forwarded
  to the conversational backend: the text itself when it has at most 500 characters,
  otherwise its first 500 characters followed by the marker \<open>...\<close>, 503 characters in
  all. The forwarded text never has more than 503 characters.
\<close>

theorem message_truncation:
  assumes "json_get payload (str ''message'') = Inr (JStr m)"
  shows "\<exists>fwd. sent (log (snd (chat_endpoint env payload s))) = sent (log s) @ [JStr fwd] \<and>
           length fwd \<le> 503 \<and>
           (if 500 < length m then fwd = take 500 m @ str ''...'' \<and> length fwd = 503
            else fwd = m)"
proof -
  let ?fwd = "if 500 < length m then take 500 m @ str ''...'' else m"
  have "sent (log (snd (chat_endpoint env payload s))) = sent (log s) @ [JStr ?fwd]"
    using chat_endpoint_state [OF assms] chat_try_str_sent by simp
  moreover have "length ?fwd \<le> 503" by (simp add: str_def)
  moreover have "500 < length m \<Longrightarrow> length ?fwd = 503" by (simp add: str_def)
  ultimately show ?thesis by (intro exI [of _ ?fwd]) simp
qed

theorem message_truncation_witness:
  "json_get (JObj [(str ''message'', JStr (replicate 600 120))]) (str ''message'')
     = Inr (JStr (replicate 600 120)) \<and>
   sent (log (snd (chat_endpoint env_down (JObj [(str ''message'', JStr (replicate 600 120))]) init)))
     = [JStr (replicate 500 120 @ str ''...'')] \<and>
   length (replicate 500 120 @ str ''...'') = 503"
proof -
  have h: "json_get (JObj [(str ''message'', JStr (replicate 600 120))]) (str ''message'')
     = Inr (JStr (replicate 600 120))"
    by (simp add: json_get_def)
  from message_truncation [OF h, of env_down init]
  have "sent (log (snd (chat_endpoint env_down (JObj [(str ''message'', JStr (replicate 600 120))]) init)))
     = [JStr (replicate 500 120 @ str ''...'')]"
    by (auto simp: init_def)
  then show ?thesis using h by (simp add: str_def)
qed

text \<open>
  C10. For a payload that is a JSON object without the key \<open>message\<close> the extracted
  message is \<open>None\<close>, its length cannot be taken, and the handler answers with the fixed
  apologetic text, no audio and status \<open>api_error\<close>; no fault leaves the handler and no
  external service is called.
\<close>

theorem missing_message_api_error:
  assumes "str ''message'' \<notin> fst ` set kvs"
  shows "chat_endpoint env (JObj kvs) s =
     (Inr (JsonResponse 200
        [(''response'', JStr api_error_text), (''audio'', JNull), (''status'', JStr (str ''api_error''))]),
      s)"
proof -
  have "map_of (rev kvs) (str ''message'') = None"
    using assms by (simp add: map_of_eq_None_iff)
  then show ?thesis
    using print_len_error [of "stdout env"]
    by (simp add: chat_endpoint_def json_get_def chat_try_def py_len_def chat_payload_def)
qed

theorem missing_message_api_error_witness:
  "str ''message'' \<notin> fst ` set [(str ''text'', JStr (str ''Hello''))] \<and>
   chat_endpoint env_slow (JObj [(str ''text'', JStr (str ''Hello''))]) init =
     (Inr (JsonResponse 200
        [(''response'', JStr api_error_text), (''audio'', JNull), (''status'', JStr (str ''api_error''))]),
      init)"
proof -
  have h: "str ''message'' \<notin> fst ` set [(str ''text'', JStr (str ''Hello''))]"
    by (simp add: str_def)
  from missing_message_api_error [OF h, of env_slow init] h show ?thesis by simp
qed

section \<open>Properties of the audio endpoint\<close>

text \<open>
  C9. \<open>text_to_speech\<close> calls only the cached paid path and answers with the joined
  bytes. Its \<open>except\<close> clause is meant to answer a failure with the JSON error and status
  500, but prints the exception first. With an ASCII standard output and a paid provider
  failing with a message that holds U+2603 the \<open>print\<close> raises, and the exception leaves
  the handler where the JSON error should be returned.
\<close>

theorem audio_endpoint_raises:
  "text_to_speech env_snowman (str ''Hello'') init =
     (Inl (Raised UnicodeEncodeError
        (str (quoted ''ascii'' @ '' codec can't encode character '' @ quoted (backslash @ ''u2603'') @
              '' in position 24: ordinal not in range(128)''))),
      \<lparr>cache = [], log = [ClientGenerate (str ''Hello'')], clock = 0, temp_file = None\<rparr>)"
proof -
  have so: "stdout env_snowman = Ascii" by (simp add: env_snowman_def env_down_def)
  have c: "cached_text_to_speech env_snowman (str ''Hello'') init =
     (Inl (Raised ProviderError [9731]), init\<lparr>log := [ClientGenerate (str ''Hello'')]\<rparr>)"
  proof -
    have "init\<lparr>log := []\<rparr> = init" by (simp add: init_def)
    with cached_snowman [of "[]"] show ?thesis by simp
  qed
  have "text_to_speech env_snowman (str ''Hello'') init =
     (Inl (Raised UnicodeEncodeError
        (str (quoted ''ascii'' @ '' codec can't encode character '' @ quoted (backslash @ ''u2603'') @
              '' in position 24: ordinal not in range(128)''))),
      init\<lparr>log := [ClientGenerate (str ''Hello'')]\<rparr>)"
    using print_audio_snowman by (simp add: text_to_speech_def c so)
  then show ?thesis by (simp only: init_logged)
qed

section \<open>Properties of the transcription endpoint\<close>

text \<open>
  C7, amended to what the code does. The endpoint answers 400, a client error, when the upload has
  no \<open>audio\<close> file, and also when a file is attached but the key is not configured (empty,
  or the placeholder). It answers 500, a server error, when the key is configured and the
  transcription call raises.
\<close>

theorem transcription_status:
  "(map_of files (str ''audio'') = None \<longrightarrow>
      status_of (transcribe_with_assemblyai api_key env files s) = Some 400) \<and>
   (map_of files (str ''audio'') = Some f \<and> (api_key = [] \<or> api_key = str ''your-assemblyai-key'') \<longrightarrow>
      status_of (transcribe_with_assemblyai api_key env files s) = Some 400) \<and>
   (map_of files (str ''audio'') = Some f \<and> api_key \<noteq> [] \<and> api_key \<noteq> str ''your-assemblyai-key'' \<and>
    transcribe env f = Inl m \<longrightarrow>
      status_of (transcribe_with_assemblyai api_key env files s) = Some 500) \<and>
   client_error 400 \<and> server_error 500"
proof (intro conjI impI)
  assume "map_of files (str ''audio'') = None"
  then show "status_of (transcribe_with_assemblyai api_key env files s) = Some 400"
    by (simp add: transcribe_with_assemblyai_def status_of_def)
next
  assume "map_of files (str ''audio'') = Some f \<and> (api_key = [] \<or> api_key = str ''your-assemblyai-key'')"
  then show "status_of (transcribe_with_assemblyai api_key env files s) = Some 400"
    by (auto simp: transcribe_with_assemblyai_def transcribe_try_def status_of_def print_no_key)
next
  assume "map_of files (str ''audio'') = Some f \<and> api_key \<noteq> [] \<and>
    api_key \<noteq> str ''your-assemblyai-key'' \<and> transcribe env f = Inl m"
  then show "status_of (transcribe_with_assemblyai api_key env files s) = Some 500"
    by (simp add: transcribe_with_assemblyai_def transcribe_try_def status_of_def print_using
        Let_def split: sum.split)
next
  show "client_error 400" by (simp add: client_error_def)
  show "server_error 500" by (simp add: server_error_def)
qed

theorem transcription_status_witness:
  "map_of [] (str ''audio'') = (None :: bytes option) \<and>
   status_of (transcribe_with_assemblyai (str ''key-1'') env_down [] init) = Some 400 \<and>
   map_of [(str ''audio'', [82, 73, 70, 70])] (str ''audio'') = Some [82, 73, 70, 70 :: 8 word] \<and>
   status_of (transcribe_with_assemblyai [] env_down [(str ''audio'', [82, 73, 70, 70])] init)
     = Some 400 \<and>
   str ''key-1'' \<noteq> [] \<and> str ''key-1'' \<noteq> str ''your-assemblyai-key'' \<and>
   transcribe env_down [82, 73, 70, 70] = Inl (str ''connection refused'') \<and>
   status_of (transcribe_with_assemblyai (str ''key-1'') env_down [(str ''audio'', [82, 73, 70, 70])] init)
     = Some 500"
proof -
  have h1: "map_of [] (str ''audio'') = (None :: bytes option)" by simp
  have h2: "map_of [(str ''audio'', [82, 73, 70, 70])] (str ''audio'') = Some [82, 73, 70, 70 :: 8 word]"
    by simp
  have h3: "str ''key-1'' \<noteq> []" "str ''key-1'' \<noteq> str ''your-assemblyai-key''"
    by (simp_all add: str_def)
  have h4: "transcribe env_down [82, 73, 70, 70] = Inl (str ''connection refused'')"
    by (simp add: env_down_def)
  show ?thesis
    using h1 h2 h3 h4
      transcription_status [of "[]" "str ''key-1''" env_down init]
      transcription_status [of "[(str ''audio'', [82, 73, 70, 70])]" "[]" env_down init "[82, 73, 70, 70]"]
      transcription_status [of "[(str ''audio'', [82, 73, 70, 70])]" "str ''key-1''" env_down init
        "[82, 73, 70, 70]" "str ''connection refused''"]
    by simp
qed

text \<open>
  C7 as stated fails: with the placeholder key and an audio file attached the status is
  400, which is not a server error.
\<close>

theorem transcription_unconfigured_counterexample:
  "status_of (transcribe_with_assemblyai (str ''your-assemblyai-key'') env_down
      [(str ''audio'', [82, 73, 70, 70])] init) = Some 400 \<and>
   \<not> server_error 400"
  by (simp add: transcribe_with_assemblyai_def transcribe_try_def status_of_def server_error_def
      print_no_key)

text \<open>
  C8. For an upload without files the status is 400 and the body has an \<open>error\<close>
  message, but neither a \<open>transcript\<close> nor a \<open>status\<close> key, unlike the bodies of the other
  two error answers of the same handler.
\<close>

theorem no_audio_body:
  "fst (transcribe_with_assemblyai api_key env [] s) =
     Inr (JsonResponse 400 [(''error'', JStr (str ''No audio file provided''))]) \<and>
   body_field (JsonResponse 400 [(''error'', JStr (str ''No audio file provided''))]) ''transcript''
     = None \<and>
   body_field (JsonResponse 400 [(''error'', JStr (str ''No audio file provided''))]) ''status''
     = None"
  by (simp add: transcribe_with_assemblyai_def)

end
